theory Spec2Isabelle
  imports Main "HOL-Library.Char_ord" "HOL-Library.List_Lexorder" "HOL-Library.Product_Lexorder"
    "HOL-Library.Multiset"
begin

section \<open>Data model\<close>

text \<open>
  A calendar date is (year, month, day); a pandas Timestamp is (year, month, day,
  nanoseconds since midnight). Both are ordered lexicographically, which is the
  chronological order. \<open>pd.to_datetime\<close> of a date is midnight of that day, and
  \<open>.dt.year\<close> reads the first component.
\<close>

type_synonym date = "int \<times> int \<times> int"
type_synonym timestamp = "int \<times> int \<times> int \<times> nat"

fun to_datetime :: "date \<Rightarrow> timestamp" where
  "to_datetime (y, m, d) = (y, m, d, 0)"

fun year :: "timestamp \<Rightarrow> int" where
  "year (y, m, d, t) = y"



text \<open>
  A cell of the \<open>date\<close> column as \<open>pd.read_csv\<close> delivers it: text that denotes a
  timestamp, text that does not, or an empty cell.
\<close>

datatype date_cell = DateText timestamp | BadText string | Blank

text \<open>\<open>pd.to_datetime(..., errors="coerce")\<close> on one cell: what does not parse is NaT.\<close>

fun to_datetime_coerce :: "date_cell \<Rightarrow> timestamp option" where
  "to_datetime_coerce (DateText t) = Some t"
| "to_datetime_coerce (BadText s) = None"
| "to_datetime_coerce Blank = None"

text \<open>
  One row of the file. A missing value (NaN) is \<open>None\<close>. The cell of a column that
  the file does not have is never read. Seasons and match numbers are integers, team,
  winner and venue names are strings.
\<close>

record csv_row =
  csv_match_id :: "int option"
  csv_date :: date_cell
  csv_season :: "int option"
  csv_team1 :: "string option"
  csv_team2 :: "string option"
  csv_winner :: "string option"
  csv_venue :: "string option"
  csv_win_by_runs :: "int option"
  csv_win_by_wickets :: "int option"

record csv_frame =
  csv_columns :: "string list"
  csv_rows :: "csv_row list"

text \<open>The file at the path: \<open>None\<close> when it is missing or is not tabular data.\<close>

type_synonym csv_file = "csv_frame option"

text \<open>One row of the table that \<open>load_matches\<close> returns.\<close>

record match_row =
  match_id :: "int option"
  date :: "timestamp option"
  season :: "int option"
  team1 :: "string option"
  team2 :: "string option"
  winner :: string
  venue :: "string option"
  win_by_runs :: "int option"
  win_by_wickets :: "int option"
  result_type :: string

record frame =
  columns :: "string list"
  rws :: "match_row list"

text \<open>
  The exceptions of a run. \<open>NoDateError\<close> stands for what lines 74 to 76 raise on a table
  without any date.
\<close>

datatype error = FileError | KeyError string | ValueError | TypeError | NoDateError

section \<open>Loading\<close>

definition read_csv :: "csv_file \<Rightarrow> error + csv_frame" where
  "read_csv file = (case file of None \<Rightarrow> Inl FileError | Some df \<Rightarrow> Inr df)"

text \<open>\<open>np.arange(1, n + 1)\<close>.\<close>

definition arange1 :: "nat \<Rightarrow> int list" where
  "arange1 n = [1..int n]"

text \<open>\<open>Series.fillna\<close> on one cell.\<close>

definition fillna :: "'a \<Rightarrow> 'a option \<Rightarrow> 'a" where
  "fillna v c = (case c of None \<Rightarrow> v | Some x \<Rightarrow> x)"

text \<open>\<open>np.where\<close> on one position.\<close>

definition np_where :: "bool \<Rightarrow> 'a \<Rightarrow> 'a \<Rightarrow> 'a" where
  "np_where c a b = (if c then a else b)"

text \<open>Lines 33 to 35, for one row, from the cleaned winner and the two margins.\<close>

definition derive_result_type :: "string \<Rightarrow> int option \<Rightarrow> int option \<Rightarrow> string" where
  "derive_result_type w runs wickets =
     np_where (w = ''No Result'') ''No Result''
       (np_where (fillna 0 runs > 0) ''Won by Runs''
         (np_where (fillna 0 wickets > 0) ''Won by Wickets'' ''Other''))"

text \<open>
  The row that the loader builds from a file row and the sequence number of that row.
  \<open>has_id\<close> and \<open>has_season\<close> say whether the file has the column.
\<close>

definition load_row :: "bool \<Rightarrow> bool \<Rightarrow> csv_row \<times> int \<Rightarrow> match_row" where
  "load_row has_id has_season p =
     (let c = fst p;
          d = to_datetime_coerce (csv_date c);
          w = fillna ''No Result'' (csv_winner c)
      in \<lparr> match_id = (if has_id then csv_match_id c else Some (snd p)),
           date = d,
           season = (if has_season then csv_season c else map_option year d),
           team1 = csv_team1 c,
           team2 = csv_team2 c,
           winner = w,
           venue = csv_venue c,
           win_by_runs = csv_win_by_runs c,
           win_by_wickets = csv_win_by_wickets c,
           result_type = derive_result_type w (csv_win_by_runs c) (csv_win_by_wickets c) \<rparr>)"

text \<open>
  The columns of the returned table: assigning to a column that exists keeps its place,
  a new column is appended.
\<close>

definition assign_column :: "string \<Rightarrow> string list \<Rightarrow> string list" where
  "assign_column c cols = (if c \<in> set cols then cols else cols @ [c])"

definition loaded_columns :: "string list \<Rightarrow> string list" where
  "loaded_columns cols =
     assign_column ''result_type'' (assign_column ''season'' (assign_column ''match_id'' cols))"

text \<open>
  \<open>load_matches\<close>. Reading a column that the file does not have raises KeyError, in the
  order in which the function reads them.
\<close>

definition load_matches :: "csv_file \<Rightarrow> error + frame" where
  "load_matches file =
     (case read_csv file of
        Inl e \<Rightarrow> Inl e
      | Inr df \<Rightarrow>
          let cols = csv_columns df in
          if ''date'' \<notin> set cols then Inl (KeyError ''date'')
          else if ''winner'' \<notin> set cols then Inl (KeyError ''winner'')
          else if ''win_by_runs'' \<notin> set cols then Inl (KeyError ''win_by_runs'')
          else if ''win_by_wickets'' \<notin> set cols then Inl (KeyError ''win_by_wickets'')
          else Inr \<lparr> columns = loaded_columns cols,
                     rws = map (load_row (''match_id'' \<in> set cols) (''season'' \<in> set cols))
                             (zip (csv_rows df) (arange1 (length (csv_rows df)))) \<rparr>)"

section \<open>Filters\<close>

text \<open>\<open>Series.isin\<close> on one cell: a missing value is in no selection of values.\<close>

definition isin :: "'a option \<Rightarrow> 'a list \<Rightarrow> bool" where
  "isin c sel = (case c of None \<Rightarrow> False | Some x \<Rightarrow> x \<in> set sel)"

text \<open>Comparisons of a datetime cell with a timestamp: NaT compares False.\<close>

definition ts_ge :: "timestamp option \<Rightarrow> timestamp \<Rightarrow> bool" where
  "ts_ge c t = (case c of None \<Rightarrow> False | Some d \<Rightarrow> t \<le> d)"

definition ts_le :: "timestamp option \<Rightarrow> timestamp \<Rightarrow> bool" where
  "ts_le c t = (case c of None \<Rightarrow> False | Some d \<Rightarrow> d \<le> t)"

text \<open>Lines 81 and 82.\<close>

definition season_filter :: "int list \<Rightarrow> match_row list \<Rightarrow> match_row list" where
  "season_filter season_sel f =
     (if season_sel \<noteq> [] then filter (\<lambda>r. isin (season r) season_sel) f else f)"

text \<open>Line 86.\<close>

definition date_filter :: "date \<Rightarrow> date \<Rightarrow> match_row list \<Rightarrow> match_row list" where
  "date_filter start_date end_date f =
     filter (\<lambda>r. ts_ge (date r) (to_datetime start_date) \<and> ts_le (date r) (to_datetime end_date)) f"

text \<open>Lines 89 and 90.\<close>

definition team_filter :: "string list \<Rightarrow> match_row list \<Rightarrow> match_row list" where
  "team_filter team_sel f =
     (if team_sel \<noteq> [] then filter (\<lambda>r. isin (team1 r) team_sel \<or> isin (team2 r) team_sel) f
      else f)"

text \<open>Lines 79 to 90 in the order of the source: season, date, team.\<close>

definition apply_filters ::
  "int list \<Rightarrow> string list \<Rightarrow> date \<Rightarrow> date \<Rightarrow> match_row list \<Rightarrow> match_row list" where
  "apply_filters season_sel team_sel start_date end_date f =
     team_filter team_sel (date_filter start_date end_date (season_filter season_sel f))"

text \<open>\<open>start_date, end_date = date_range\<close>: any other length raises ValueError.\<close>

fun unpack_range :: "date list \<Rightarrow> error + (date \<times> date)" where
  "unpack_range [s, e] = Inr (s, e)"
| "unpack_range ds = Inl ValueError"

section \<open>Aggregation\<close>

text \<open>The distinct values in the order of their first appearance.\<close>

definition first_seen :: "'a list \<Rightarrow> 'a list" where
  "first_seen xs = rev (remdups (rev xs))"

text \<open>
  \<open>Series.value_counts\<close>: one entry per distinct value with the number of its
  occurrences, collected in the order of first appearance and then put in descending
  order of the count by the sort of pandas, which compares the counts only. What that
  sort does with equal counts depends on the version of pandas and on the number of
  entries, and the script pins no version. So the sort is the parameter \<open>sort_values\<close>;
  the facts below ask of it only that its result is a permutation of its argument in
  descending order of the count.
\<close>

type_synonym 'a count_sort = "('a \<times> nat) list \<Rightarrow> ('a \<times> nat) list"

definition value_counts :: "'a count_sort \<Rightarrow> 'a list \<Rightarrow> ('a \<times> nat) list" where
  "value_counts sort_values xs = sort_values (map (\<lambda>x. (x, count_list xs x)) (first_seen xs))"

text \<open>
  One such sort, the stable one: entries with equal counts keep their order. This is
  what the sort of pandas does on a short argument, which it sorts by insertion.
\<close>

definition insertion_sort_desc :: "'a count_sort" where
  "insertion_sort_desc ps = sort_key (\<lambda>p. - int (snd p)) ps"

text \<open>\<open>f[f["winner"] != "No Result"]\<close>.\<close>

definition decided :: "match_row list \<Rightarrow> match_row list" where
  "decided f = filter (\<lambda>r. winner r \<noteq> ''No Result'') f"

text \<open>Line 105 and lines 134 to 136.\<close>

definition wins :: "string count_sort \<Rightarrow> match_row list \<Rightarrow> (string \<times> nat) list" where
  "wins sort_values f = value_counts sort_values (map winner (decided f))"

definition win_counts :: "string count_sort \<Rightarrow> match_row list \<Rightarrow> (string \<times> nat) list" where
  "win_counts sort_values f = take 10 (wins sort_values f)"

text \<open>
  \<open>groupby(keys)["match_id"].count()\<close>: rows with a missing key are in no group, the
  groups come in ascending order of the key, and the count of a group is the number of
  its rows whose \<open>match_id\<close> is not missing.
\<close>

definition groupby_count ::
  "(match_row \<Rightarrow> ('k::linorder) option) \<Rightarrow> match_row list \<Rightarrow> ('k \<times> nat) list" where
  "groupby_count key f =
     map (\<lambda>k. (k, length (filter (\<lambda>r. key r = Some k \<and> match_id r \<noteq> None) f)))
       (sort (remdups (List.map_filter key f)))"

text \<open>Line 129.\<close>

definition season_counts :: "match_row list \<Rightarrow> (int \<times> nat) list" where
  "season_counts f = groupby_count season f"

text \<open>
  Line 159: the key of a row is the pair (season, winner). The winner is never missing
  after loading, so the key is missing exactly when the season is.
\<close>

definition season_winner :: "match_row \<Rightarrow> (int \<times> string) option" where
  "season_winner r = map_option (\<lambda>s. (s, winner r)) (season r)"

definition win_matrix :: "match_row list \<Rightarrow> ((int \<times> string) \<times> nat) list" where
  "win_matrix f = groupby_count season_winner (decided f)"

text \<open>
  Line 160. The pivot has one row per winner and one column per season of the grouped
  table, both ascending; a pair without a group is NaN, which \<open>fillna(0)\<close> replaces.
\<close>

record pivot_table =
  pv_columns :: "int list"
  pv_rows :: "(string \<times> nat list) list"

definition pivot :: "((int \<times> string) \<times> nat) list \<Rightarrow> pivot_table" where
  "pivot wm =
     (let idx = sort (remdups (map (\<lambda>g. snd (fst g)) wm));
          cols = sort (remdups (map (\<lambda>g. fst (fst g)) wm))
      in \<lparr> pv_columns = cols,
           pv_rows = map (\<lambda>w. (w, map (\<lambda>s. fillna 0 (map_of wm (s, w))) cols)) idx \<rparr>)"

text \<open>Reading the cell of a winner and a season: \<open>None\<close> when the grid has no such cell.\<close>

definition cell :: "pivot_table \<Rightarrow> string \<Rightarrow> int \<Rightarrow> nat option" where
  "cell p w s =
     (case map_of (pv_rows p) w of
        None \<Rightarrow> None
      | Some vs \<Rightarrow> map_of (zip (pv_columns p) vs) s)"

text \<open>Lines 100 to 107 and the charts' tables.\<close>

record outputs =
  total_matches :: nat
  no_result :: nat
  unique_venues :: nat
  top_team :: string
  top_team_wins :: nat
  out_season_counts :: "(int \<times> nat) list"
  out_win_counts :: "(string \<times> nat) list"
  out_pivot :: pivot_table
  out_result_counts :: "(string \<times> nat) list"

definition aggregate :: "string count_sort \<Rightarrow> string list \<Rightarrow> match_row list \<Rightarrow> outputs" where
  "aggregate sort_values cols f =
     \<lparr> total_matches = length f,
       no_result = length (filter (\<lambda>r. winner r = ''No Result'') f),
       unique_venues =
         (if ''venue'' \<in> set cols then length (remdups (List.map_filter venue f)) else 0),
       top_team = (case wins sort_values f of [] \<Rightarrow> ''N/A'' | p # ps \<Rightarrow> fst p),
       top_team_wins = (case wins sort_values f of [] \<Rightarrow> 0 | p # ps \<Rightarrow> snd p),
       out_season_counts = season_counts f,
       out_win_counts = win_counts sort_values f,
       out_pivot = pivot (win_matrix f),
       out_result_counts = value_counts sort_values (map result_type f) \<rparr>"

section \<open>The script\<close>

text \<open>
  Lines 64 to 76 build the three sidebar widgets from the loaded table, and three of
  their steps can raise an exception that nothing catches.
  Line 71 reads the columns \<open>team1\<close> and \<open>team2\<close> (KeyError when one is absent) and
  sorts their distinct cells: a missing cell is a float and a name is a string, and
  comparing the two is a TypeError, so the sort fails when the cells hold both.
  Lines 74 to 76 take the least and the greatest date as the default of the date input,
  which fails when no row has a date.
  \<open>sidebar_error\<close> is the exception of these lines, \<open>None\<close> when the widgets are built.
\<close>

definition team_cells :: "match_row list \<Rightarrow> string option list" where
  "team_cells rs = map team1 rs @ map team2 rs"

definition mixed_teams :: "match_row list \<Rightarrow> bool" where
  "mixed_teams rs = (None \<in> set (team_cells rs) \<and> filter (\<lambda>c. c \<noteq> None) (team_cells rs) \<noteq> [])"

definition has_date :: "match_row list \<Rightarrow> bool" where
  "has_date rs = (filter (\<lambda>r. date r \<noteq> None) rs \<noteq> [])"

definition sidebar_error :: "frame \<Rightarrow> error option" where
  "sidebar_error matches =
     (if ''team1'' \<notin> set (columns matches) then Some (KeyError ''team1'')
      else if ''team2'' \<notin> set (columns matches) then Some (KeyError ''team2'')
      else if mixed_teams (rws matches) then Some TypeError
      else if \<not> has_date (rws matches) then Some NoDateError
      else None)"

text \<open>
  One run of the script, for the values that the three sidebar widgets return once they
  are built: the selected seasons, the selected teams and the tuple of the date input.
  \<open>LoadFailed\<close> is the handler of lines 56 to 59, \<open>Crashed\<close> an exception that nothing
  catches, \<open>NoMatches\<close> the warning and stop of lines 93 to 95, \<open>Rendered\<close> a run that
  reaches the metrics and charts.
\<close>

datatype outcome = LoadFailed error | Crashed error | NoMatches | Rendered outputs

definition dashboard ::
  "string count_sort \<Rightarrow> csv_file \<Rightarrow> int list \<Rightarrow> string list \<Rightarrow> date list \<Rightarrow> outcome" where
  "dashboard sort_values file season_sel team_sel date_range =
     (case load_matches file of
        Inl e \<Rightarrow> LoadFailed e
      | Inr matches \<Rightarrow>
          (case sidebar_error matches of
             Some e \<Rightarrow> Crashed e
           | None \<Rightarrow>
               (case unpack_range date_range of
                  Inl e \<Rightarrow> Crashed e
                | Inr (start_date, end_date) \<Rightarrow>
                    let f = apply_filters season_sel team_sel start_date end_date (rws matches)
                    in if f = [] then NoMatches
                       else Rendered (aggregate sort_values (columns matches) f))))"

section \<open>The rule of the specification for the result type\<close>

text \<open>
  The rule as the specification words it: "No Result" if the winner is the sentinel;
  else "Won by Runs" if the run margin, a missing one read as 0, is positive; else
  "Won by Wickets" if the wicket margin, a missing one read as 0, is positive; else "Other".
\<close>

definition or_zero :: "int option \<Rightarrow> int" where
  "or_zero c = (case c of None \<Rightarrow> 0 | Some n \<Rightarrow> n)"

definition spec_result_type :: "string \<Rightarrow> int option \<Rightarrow> int option \<Rightarrow> string" where
  "spec_result_type w runs wickets =
     (if w = ''No Result'' then ''No Result''
      else if or_zero runs > 0 then ''Won by Runs''
      else if or_zero wickets > 0 then ''Won by Wickets''
      else ''Other'')"


section \<open>Example files\<close>

text \<open>
  A file without the columns \<open>match_id\<close> and \<open>season\<close>: two wins of Mumbai, one of
  Chennai, and a match without winner whose date does not parse.
\<close>

definition file_a :: csv_frame where
  "file_a =
     \<lparr> csv_columns = [''date'', ''team1'', ''team2'', ''winner'', ''venue'',
                        ''win_by_runs'', ''win_by_wickets''],
       csv_rows =
         [\<lparr> csv_match_id = None, csv_date = DateText (2020, 4, 1, 0), csv_season = None,
            csv_team1 = Some ''Mumbai'', csv_team2 = Some ''Chennai'',
            csv_winner = Some ''Mumbai'', csv_venue = Some ''Wankhede'',
            csv_win_by_runs = Some 20, csv_win_by_wickets = Some 0 \<rparr>,
          \<lparr> csv_match_id = None, csv_date = DateText (2020, 4, 5, 0), csv_season = None,
            csv_team1 = Some ''Delhi'', csv_team2 = Some ''Mumbai'',
            csv_winner = Some ''Mumbai'', csv_venue = Some ''Kotla'',
            csv_win_by_runs = Some 0, csv_win_by_wickets = Some 0 \<rparr>,
          \<lparr> csv_match_id = None, csv_date = DateText (2021, 4, 9, 0), csv_season = None,
            csv_team1 = Some ''Chennai'', csv_team2 = Some ''Delhi'',
            csv_winner = Some ''Chennai'', csv_venue = None,
            csv_win_by_runs = None, csv_win_by_wickets = Some 4 \<rparr>,
          \<lparr> csv_match_id = None, csv_date = BadText ''tbd'', csv_season = None,
            csv_team1 = Some ''Chennai'', csv_team2 = Some ''Mumbai'',
            csv_winner = None, csv_venue = None,
            csv_win_by_runs = None, csv_win_by_wickets = None \<rparr>] \<rparr>"

definition row_a1 :: match_row where
  "row_a1 =
     \<lparr> match_id = Some 1, date = Some (2020, 4, 1, 0), season = Some 2020,
       team1 = Some ''Mumbai'', team2 = Some ''Chennai'', winner = ''Mumbai'',
       venue = Some ''Wankhede'', win_by_runs = Some 20, win_by_wickets = Some 0,
       result_type = ''Won by Runs'' \<rparr>"

definition row_a2 :: match_row where
  "row_a2 =
     \<lparr> match_id = Some 2, date = Some (2020, 4, 5, 0), season = Some 2020,
       team1 = Some ''Delhi'', team2 = Some ''Mumbai'', winner = ''Mumbai'',
       venue = Some ''Kotla'', win_by_runs = Some 0, win_by_wickets = Some 0,
       result_type = ''Other'' \<rparr>"

definition row_a3 :: match_row where
  "row_a3 =
     \<lparr> match_id = Some 3, date = Some (2021, 4, 9, 0), season = Some 2021,
       team1 = Some ''Chennai'', team2 = Some ''Delhi'', winner = ''Chennai'',
       venue = None, win_by_runs = None, win_by_wickets = Some 4,
       result_type = ''Won by Wickets'' \<rparr>"

definition row_a4 :: match_row where
  "row_a4 =
     \<lparr> match_id = Some 4, date = None, season = None,
       team1 = Some ''Chennai'', team2 = Some ''Mumbai'', winner = ''No Result'',
       venue = None, win_by_runs = None, win_by_wickets = None,
       result_type = ''No Result'' \<rparr>"

definition frame_a :: frame where
  "frame_a =
     \<lparr> columns = [''date'', ''team1'', ''team2'', ''winner'', ''venue'', ''win_by_runs'',
                    ''win_by_wickets'', ''match_id'', ''season'', ''result_type''],
       rws = [row_a1, row_a2, row_a3, row_a4] \<rparr>"

text \<open>
  A file that has the columns \<open>match_id\<close> and \<open>season\<close>: a number is used twice,
  the only match of season 2021 has no winner, and one decided match has no season.
\<close>

definition file_b :: csv_frame where
  "file_b =
     \<lparr> csv_columns = [''match_id'', ''season'', ''date'', ''team1'', ''team2'', ''winner'',
                        ''win_by_runs'', ''win_by_wickets''],
       csv_rows =
         [\<lparr> csv_match_id = Some 7, csv_date = DateText (2020, 4, 1, 0), csv_season = Some 2020,
            csv_team1 = Some ''Mumbai'', csv_team2 = Some ''Chennai'',
            csv_winner = Some ''Mumbai'', csv_venue = None,
            csv_win_by_runs = Some 5, csv_win_by_wickets = Some 0 \<rparr>,
          \<lparr> csv_match_id = Some 7, csv_date = DateText (2021, 4, 1, 0), csv_season = Some 2021,
            csv_team1 = Some ''Mumbai'', csv_team2 = Some ''Chennai'',
            csv_winner = None, csv_venue = None,
            csv_win_by_runs = None, csv_win_by_wickets = None \<rparr>,
          \<lparr> csv_match_id = Some 9, csv_date = DateText (2021, 5, 1, 0), csv_season = None,
            csv_team1 = Some ''Mumbai'', csv_team2 = Some ''Chennai'',
            csv_winner = Some ''Chennai'', csv_venue = None,
            csv_win_by_runs = Some 0, csv_win_by_wickets = Some 3 \<rparr>] \<rparr>"

definition row_b1 :: match_row where
  "row_b1 =
     \<lparr> match_id = Some 7, date = Some (2020, 4, 1, 0), season = Some 2020,
       team1 = Some ''Mumbai'', team2 = Some ''Chennai'', winner = ''Mumbai'',
       venue = None, win_by_runs = Some 5, win_by_wickets = Some 0,
       result_type = ''Won by Runs'' \<rparr>"

definition row_b2 :: match_row where
  "row_b2 =
     \<lparr> match_id = Some 7, date = Some (2021, 4, 1, 0), season = Some 2021,
       team1 = Some ''Mumbai'', team2 = Some ''Chennai'', winner = ''No Result'',
       venue = None, win_by_runs = None, win_by_wickets = None,
       result_type = ''No Result'' \<rparr>"

definition row_b3 :: match_row where
  "row_b3 =
     \<lparr> match_id = Some 9, date = Some (2021, 5, 1, 0), season = None,
       team1 = Some ''Mumbai'', team2 = Some ''Chennai'', winner = ''Chennai'',
       venue = None, win_by_runs = Some 0, win_by_wickets = Some 3,
       result_type = ''Won by Wickets'' \<rparr>"

text \<open>A file with the header line only.\<close>

definition file_c :: csv_frame where
  "file_c =
     \<lparr> csv_columns = [''date'', ''team1'', ''team2'', ''winner'', ''win_by_runs'',
                        ''win_by_wickets''],
       csv_rows = [] \<rparr>"

definition frame_c :: frame where
  "frame_c =
     \<lparr> columns = [''date'', ''team1'', ''team2'', ''winner'', ''win_by_runs'',
                    ''win_by_wickets'', ''match_id'', ''season'', ''result_type''],
       rws = [] \<rparr>"




text \<open>The third row with the season 2021 filled in.\<close>

definition row_c1 :: match_row where
  "row_c1 = row_b3 \<lparr> season := Some 2021 \<rparr>"

definition frame_b :: frame where
  "frame_b =
     \<lparr> columns = [''match_id'', ''season'', ''date'', ''team1'', ''team2'', ''winner'',
                    ''win_by_runs'', ''win_by_wickets'', ''result_type''],
       rws = [row_b1, row_b2, row_b3] \<rparr>"

section \<open>Facts about loading\<close>

lemma derive_result_type_spec:
  "derive_result_type w runs wickets = spec_result_type w runs wickets"
  by (cases runs; cases wickets)
     (simp_all add: derive_result_type_def spec_result_type_def np_where_def fillna_def or_zero_def)

lemma load_matches_Inr:
  assumes "load_matches src = Inr m"
  shows "\<exists>df. src = Some df
    \<and> rws m = map (load_row (''match_id'' \<in> set (csv_columns df)) (''season'' \<in> set (csv_columns df)))
                   (zip (csv_rows df) (arange1 (length (csv_rows df))))
    \<and> columns m = loaded_columns (csv_columns df)"
  using assms
  by (cases src) (auto simp: load_matches_def read_csv_def Let_def split: if_splits)

lemma arange1_4: "arange1 (Suc (Suc (Suc (Suc 0)))) = [1, 2, 3, 4]"
  by (simp add: arange1_def upto.simps)

lemma arange1_3: "arange1 (Suc (Suc (Suc 0))) = [1, 2, 3]"
  by (simp add: arange1_def upto.simps)

lemma load_file_a: "load_matches (Some file_a) = Inr frame_a"
  by (simp add: Let_def load_matches_def read_csv_def file_a_def frame_a_def loaded_columns_def
      assign_column_def
      arange1_4 load_row_def derive_result_type_def np_where_def fillna_def
      row_a1_def row_a2_def row_a3_def row_a4_def)

lemma load_file_b: "load_matches (Some file_b) = Inr frame_b"
  by (simp add: Let_def load_matches_def read_csv_def file_b_def frame_b_def loaded_columns_def
      assign_column_def
      arange1_3 load_row_def derive_result_type_def np_where_def fillna_def
      row_b1_def row_b2_def row_b3_def)

lemma load_file_c: "load_matches (Some file_c) = Inr frame_c"
  by (simp add: Let_def load_matches_def read_csv_def file_c_def frame_c_def loaded_columns_def
      assign_column_def arange1_def)



text \<open>
  C1. For every row of the loaded table, the field \<open>result_type\<close> is the value of the
  specification's rule at the row's winner, run margin and wicket margin: "No Result" for
  the sentinel winner, else "Won by Runs" for a positive run margin, else "Won by Wickets"
  for a positive wicket margin, else "Other", a missing margin counting as 0.
\<close>

theorem result_type_rule:
  assumes "load_matches src = Inr m" and "r \<in> set (rws m)"
  shows "result_type r = spec_result_type (winner r) (win_by_runs r) (win_by_wickets r)"
proof -
  from load_matches_Inr [OF assms(1)] assms(2)
  obtain h1 h2 p where "r = load_row h1 h2 p"
    by auto
  then show ?thesis
    by (simp add: load_row_def Let_def derive_result_type_spec)
qed

theorem result_type_rule_witness:
  "load_matches (Some file_a) = Inr frame_a \<and> row_a3 \<in> set (rws frame_a)
   \<and> result_type row_a3 = spec_result_type (winner row_a3) (win_by_runs row_a3) (win_by_wickets row_a3)
   \<and> result_type row_a3 = ''Won by Wickets''"
proof -
  have mem: "row_a3 \<in> set (rws frame_a)"
    by (simp add: frame_a_def)
  from result_type_rule [OF load_file_a mem] load_file_a mem show ?thesis
    by (simp add: row_a3_def)
qed

section \<open>Facts about the filters\<close>

lemma season_filter_as_filter:
  "season_filter ss f = filter (\<lambda>r. ss = [] \<or> isin (season r) ss) f"
  by (simp add: season_filter_def)

lemma team_filter_as_filter:
  "team_filter ts f = filter (\<lambda>r. ts = [] \<or> isin (team1 r) ts \<or> isin (team2 r) ts) f"
  by (simp add: team_filter_def)





lemma date_filter_not_None: "r \<in> set (date_filter s e f) \<Longrightarrow> date r \<noteq> None"
  by (auto simp: date_filter_def ts_ge_def split: option.splits)

text \<open>
  The upper bound is midnight of the end day: a row that is dated on the end day at a
  later time of day is past the bound.
\<close>

lemma date_filter_time_of_day:
  "date r = Some (y, m, d, Suc n) \<Longrightarrow> r \<notin> set (date_filter start_date (y, m, d) f)"
  by (simp add: date_filter_def ts_le_def)

lemma apply_filters_subset: "set (apply_filters ss ts s e f) \<subseteq> set (date_filter s e f)"
  by (auto simp: apply_filters_def team_filter_as_filter season_filter_as_filter date_filter_def)

lemma apply_filters_subset_all: "set (apply_filters ss ts s e f) \<subseteq> set f"
  by (auto simp: apply_filters_def team_filter_as_filter season_filter_as_filter date_filter_def)

text \<open>
  C2, as amended. When the file has no column \<open>match_id\<close>, the loader numbers the rows
  1 to N in their order, so the values are pairwise distinct. When the file has the
  column, the loader keeps the values of the file as they are, row by row.
\<close>

theorem match_id_backfill:
  assumes "load_matches (Some df) = Inr m"
  shows "(''match_id'' \<notin> set (csv_columns df) \<longrightarrow>
            map match_id (rws m) = map Some (arange1 (length (csv_rows df)))
            \<and> distinct (map match_id (rws m)))
         \<and> (''match_id'' \<in> set (csv_columns df) \<longrightarrow>
            map match_id (rws m) = map csv_match_id (csv_rows df))"
proof -
  let ?ar = "arange1 (length (csv_rows df))"
  have len: "length ?ar = length (csv_rows df)"
    by (simp add: arange1_def)
  from load_matches_Inr [OF assms]
  have rows: "rws m = map (load_row (''match_id'' \<in> set (csv_columns df))
                        (''season'' \<in> set (csv_columns df))) (zip (csv_rows df) ?ar)"
    by auto
  have absent: "map match_id (rws m) = map Some ?ar \<and> distinct (map match_id (rws m))"
    if "''match_id'' \<notin> set (csv_columns df)"
  proof -
    from rows that have "map match_id (rws m) = map (Some \<circ> snd) (zip (csv_rows df) ?ar)"
      by (simp add: load_row_def Let_def comp_def)
    also have "\<dots> = map Some (map snd (zip (csv_rows df) ?ar))"
      by simp
    also have "\<dots> = map Some ?ar"
      using len by simp
    finally have ids: "map match_id (rws m) = map Some ?ar" .
    have "distinct (map Some ?ar)"
      by (simp add: distinct_map arange1_def)
    with ids show ?thesis by simp
  qed
  have present: "map match_id (rws m) = map csv_match_id (csv_rows df)"
    if "''match_id'' \<in> set (csv_columns df)"
  proof -
    from rows that have "map match_id (rws m) = map (csv_match_id \<circ> fst) (zip (csv_rows df) ?ar)"
      by (simp add: load_row_def Let_def comp_def)
    also have "\<dots> = map csv_match_id (map fst (zip (csv_rows df) ?ar))"
      by simp
    also have "\<dots> = map csv_match_id (csv_rows df)"
      using len by simp
    finally show ?thesis .
  qed
  from absent present show ?thesis by blast
qed

theorem match_id_backfill_witness:
  "load_matches (Some file_a) = Inr frame_a \<and> ''match_id'' \<notin> set (csv_columns file_a)
   \<and> map match_id (rws frame_a) = [Some 1, Some 2, Some 3, Some 4]
   \<and> distinct (map match_id (rws frame_a))
   \<and> load_matches (Some file_b) = Inr frame_b \<and> ''match_id'' \<in> set (csv_columns file_b)
   \<and> map match_id (rws frame_b) = [Some 7, Some 7, Some 9]"
proof -
  have no_col: "''match_id'' \<notin> set (csv_columns file_a)"
    by (simp add: file_a_def)
  have "length (csv_rows file_a) = Suc (Suc (Suc (Suc 0)))"
    by (simp add: file_a_def)
  with match_id_backfill [OF load_file_a] no_col
  have a: "map match_id (rws frame_a) = [Some 1, Some 2, Some 3, Some 4]
           \<and> distinct (map match_id (rws frame_a))"
    by (simp add: arange1_4)
  have col: "''match_id'' \<in> set (csv_columns file_b)"
    by (simp add: file_b_def)
  have "map csv_match_id (csv_rows file_b) = [Some 7, Some 7, Some 9]"
    by (simp add: file_b_def)
  with match_id_backfill [OF load_file_b] col
  have b: "map match_id (rws frame_b) = [Some 7, Some 7, Some 9]"
    by simp
  from a b no_col col load_file_a load_file_b show ?thesis by blast
qed

text \<open>
  C2 as stated fails: a file that has the column \<open>match_id\<close> with the number 7 twice
  loads with the number 7 twice.
\<close>

theorem match_id_unique_counterexample:
  "load_matches (Some file_b) = Inr frame_b \<and> csv_rows file_b \<noteq> []
   \<and> map match_id (rws frame_b) = [Some 7, Some 7, Some 9]
   \<and> \<not> distinct (map match_id (rws frame_b))"
  using load_file_b
  by (simp add: frame_b_def file_b_def row_b1_def row_b2_def row_b3_def)

text \<open>
  C3. An empty season selection leaves every table unchanged, and so does an empty team
  selection; the filter pipeline with an empty season selection is the pipeline without
  the season step, and with an empty team selection the pipeline without the team step.
\<close>

theorem empty_selection_is_identity:
  "season_filter [] f = f \<and> team_filter [] f = f
   \<and> apply_filters [] team_sel start_date end_date f
       = team_filter team_sel (date_filter start_date end_date f)
   \<and> apply_filters season_sel [] start_date end_date f
       = date_filter start_date end_date (season_filter season_sel f)"
  by (simp add: season_filter_def team_filter_def apply_filters_def)

theorem empty_selection_is_identity_witness:
  "season_filter [] (rws frame_a) = rws frame_a \<and> team_filter [] (rws frame_a) = rws frame_a
   \<and> apply_filters [] [''Delhi''] (2020, 1, 1) (2021, 12, 31) (rws frame_a)
       = team_filter [''Delhi''] (date_filter (2020, 1, 1) (2021, 12, 31) (rws frame_a))
   \<and> apply_filters [2020] [] (2020, 1, 1) (2021, 12, 31) (rws frame_a)
       = date_filter (2020, 1, 1) (2021, 12, 31) (season_filter [2020] (rws frame_a))"
  using empty_selection_is_identity [of "rws frame_a" "[''Delhi'']" "(2020, 1, 1)" "(2021, 12, 31)" "[2020]"]
  by simp


lemma date_filter_frame_a:
  "date_filter (2020, 4, 1) (2021, 4, 9) (rws frame_a) = [row_a1, row_a2, row_a3]"
  by (simp add: date_filter_def frame_a_def ts_ge_def ts_le_def row_a1_def row_a2_def row_a3_def row_a4_def)



text \<open>
  C5. For fixed selections and date range, the three filters give the same table in each
  of the six orders of application.
\<close>

theorem filters_commute:
  "team_filter ts (season_filter ss (date_filter s e f)) = apply_filters ss ts s e f
   \<and> date_filter s e (team_filter ts (season_filter ss f)) = apply_filters ss ts s e f
   \<and> date_filter s e (season_filter ss (team_filter ts f)) = apply_filters ss ts s e f
   \<and> season_filter ss (team_filter ts (date_filter s e f)) = apply_filters ss ts s e f
   \<and> season_filter ss (date_filter s e (team_filter ts f)) = apply_filters ss ts s e f"
  unfolding apply_filters_def season_filter_as_filter team_filter_as_filter date_filter_def filter_filter
  by (intro conjI filter_cong refl) blast+

theorem filters_commute_witness:
  "team_filter [''Delhi''] (season_filter [2020] (date_filter (2020, 1, 1) (2021, 12, 31) (rws frame_a)))
     = apply_filters [2020] [''Delhi''] (2020, 1, 1) (2021, 12, 31) (rws frame_a)
   \<and> season_filter [2020] (date_filter (2020, 1, 1) (2021, 12, 31) (team_filter [''Delhi''] (rws frame_a)))
     = apply_filters [2020] [''Delhi''] (2020, 1, 1) (2021, 12, 31) (rws frame_a)"
  using filters_commute [of "[''Delhi'']" "[2020]" "(2020, 1, 1)" "(2021, 12, 31)" "rws frame_a"]
  by simp

section \<open>Facts about the script\<close>






text \<open>
  On a table without any date the run ends in line 76, whatever the widgets would
  return: the header-only file is such a table.
\<close>

lemma dashboard_no_date:
  assumes "load_matches src = Inr m" and "''team1'' \<in> set (columns m)"
    and "''team2'' \<in> set (columns m)" and "\<not> mixed_teams (rws m)" and "\<not> has_date (rws m)"
  shows "dashboard srt src ss ts dr = Crashed NoDateError"
  using assms by (simp add: dashboard_def sidebar_error_def)

lemma dashboard_file_c: "dashboard srt (Some file_c) ss ts dr = Crashed NoDateError"
  by (rule dashboard_no_date [OF load_file_c])
     (simp_all add: frame_c_def mixed_teams_def team_cells_def has_date_def)

lemma dashboard_mixed_teams:
  assumes "load_matches src = Inr m" and "''team1'' \<in> set (columns m)"
    and "''team2'' \<in> set (columns m)" and "mixed_teams (rws m)"
  shows "dashboard srt src ss ts dr = Crashed TypeError"
  using assms by (simp add: dashboard_def sidebar_error_def)




lemma filters_frame_a_all:
  "apply_filters [] [] (2020, 4, 1) (2021, 4, 9) (rws frame_a) = [row_a1, row_a2, row_a3]"
  by (simp add: apply_filters_def season_filter_def team_filter_def date_filter_def frame_a_def
      ts_ge_def ts_le_def row_a1_def row_a2_def row_a3_def row_a4_def)


text \<open>
  C10. The date filter is part of every filtered view, whatever the season and team
  selections are, the empty ones too: every row of a filtered view of the loaded table
  has a date. When the file has no column \<open>season\<close>, every such row has the year of
  its date as season, so no row of a filtered view has a missing season.
\<close>

theorem filtered_rows_have_dates:
  assumes "load_matches (Some df) = Inr m"
    and "r \<in> set (apply_filters ss ts s e (rws m))"
  shows "date r \<noteq> None
    \<and> (''season'' \<notin> set (csv_columns df) \<longrightarrow> season r = map_option year (date r) \<and> season r \<noteq> None)"
proof -
  from assms(2) have d: "date r \<noteq> None"
    using apply_filters_subset date_filter_not_None by blast
  from assms(2) have "r \<in> set (rws m)"
    using apply_filters_subset_all by blast
  with load_matches_Inr [OF assms(1)]
  obtain p where "r = load_row (''match_id'' \<in> set (csv_columns df)) (''season'' \<in> set (csv_columns df)) p"
    by auto
  then have "''season'' \<notin> set (csv_columns df) \<longrightarrow> season r = map_option year (date r)"
    by (simp add: load_row_def Let_def)
  with d show ?thesis by auto
qed

theorem filtered_rows_have_dates_witness:
  "load_matches (Some file_a) = Inr frame_a
   \<and> row_a1 \<in> set (apply_filters [] [] (2020, 4, 1) (2021, 4, 9) (rws frame_a))
   \<and> ''season'' \<notin> set (csv_columns file_a)
   \<and> date row_a1 \<noteq> None \<and> season row_a1 = map_option year (date row_a1) \<and> season row_a1 \<noteq> None"
proof -
  have mem: "row_a1 \<in> set (apply_filters [] [] (2020, 4, 1) (2021, 4, 9) (rws frame_a))"
    by (simp add: filters_frame_a_all)
  have no_col: "''season'' \<notin> set (csv_columns file_a)"
    by (simp add: file_a_def)
  from filtered_rows_have_dates [OF load_file_a mem] mem no_col load_file_a
  show ?thesis by blast
qed

section \<open>Facts about grouping\<close>

lemma set_map_filter_key:
  "set (List.map_filter key f) = {k. \<exists>r \<in> set f. key r = Some k}"
  by (force simp: List.map_filter_def image_iff)

lemma groupby_count_keys:
  "map fst (groupby_count key f) = sort (remdups (List.map_filter key f))"
  by (simp add: groupby_count_def comp_def)

lemma groupby_count_sorted: "sorted (map fst (groupby_count key f))"
  by (simp add: groupby_count_keys)

lemma groupby_count_distinct: "distinct (map fst (groupby_count key f))"
  by (simp add: groupby_count_keys)

lemma groupby_count_mem:
  "(k, c) \<in> set (groupby_count key f) \<longleftrightarrow>
     (\<exists>r \<in> set f. key r = Some k)
     \<and> c = length (filter (\<lambda>r. key r = Some k \<and> match_id r \<noteq> None) f)"
  by (auto simp: groupby_count_def set_map_filter_key)

lemma groupby_count_map_of:
  "map_of (groupby_count key f) k =
     (if \<exists>r \<in> set f. key r = Some k
      then Some (length (filter (\<lambda>r. key r = Some k \<and> match_id r \<noteq> None) f)) else None)"
  by (simp add: groupby_count_def map_of_map_restrict restrict_map_def set_map_filter_key)

lemma groupby_count_fillna:
  "fillna 0 (map_of (groupby_count key f) k)
     = length (filter (\<lambda>r. key r = Some k \<and> match_id r \<noteq> None) f)"
proof (cases "\<exists>r \<in> set f. key r = Some k")
  case True
  then show ?thesis by (simp add: groupby_count_map_of fillna_def)
next
  case False
  then have "filter (\<lambda>r. key r = Some k \<and> match_id r \<noteq> None) f = []"
    by (auto simp: filter_empty_conv)
  with False show ?thesis by (simp add: groupby_count_map_of fillna_def)
qed

text \<open>
  C7, as amended. The season trend series has one entry for each season value that is
  not missing and occurs in the filtered table, in ascending order of the season, with
  the number of that season's rows whose \<open>match_id\<close> is not missing. (Rows without
  season are in no entry: there is no bucket for the missing season.)
\<close>

theorem season_trend:
  "sorted (map fst (season_counts f)) \<and> distinct (map fst (season_counts f))
   \<and> (\<forall>s c. (s, c) \<in> set (season_counts f) \<longleftrightarrow>
         (\<exists>r \<in> set f. season r = Some s)
         \<and> c = length (filter (\<lambda>r. season r = Some s \<and> match_id r \<noteq> None) f))"
  unfolding season_counts_def
  using groupby_count_sorted [of season f] groupby_count_distinct [of season f]
  by (simp add: groupby_count_mem)

lemma season_counts_frame_b: "season_counts (rws frame_b) = [(2020, 1), (2021, 1)]"
  by (simp add: season_counts_def groupby_count_def frame_b_def row_b1_def row_b2_def row_b3_def)

lemma filters_frame_b_all:
  "apply_filters [] [] (2020, 1, 1) (2021, 12, 31) (rws frame_b) = rws frame_b"
  by (simp add: apply_filters_def season_filter_def team_filter_def date_filter_def frame_b_def
      ts_ge_def ts_le_def row_b1_def row_b2_def row_b3_def)

theorem season_trend_witness:
  "(\<exists>r \<in> set (rws frame_b). season r = Some 2021)
   \<and> (2021, 1) \<in> set (season_counts (rws frame_b))
   \<and> sorted (map fst (season_counts (rws frame_b)))"
proof -
  have ex: "\<exists>r \<in> set (rws frame_b). season r = Some 2021"
    by (simp add: frame_b_def row_b2_def)
  have n: "length (filter (\<lambda>r. season r = Some 2021 \<and> match_id r \<noteq> None) (rws frame_b)) = 1"
    by (simp add: frame_b_def row_b1_def row_b2_def row_b3_def)
  from season_trend [of "rws frame_b"] ex n show ?thesis
    by simp
qed

text \<open>
  C7 as stated fails: the filtered view of the second example file has a row without
  season, and the series has the two entries of 2020 and 2021 only.
\<close>

theorem season_null_bucket_counterexample:
  "load_matches (Some file_b) = Inr frame_b
   \<and> apply_filters [] [] (2020, 1, 1) (2021, 12, 31) (rws frame_b) = [row_b1, row_b2, row_b3]
   \<and> season row_b3 = None
   \<and> season_counts [row_b1, row_b2, row_b3] = [(2020, 1), (2021, 1)]"
  using load_file_b filters_frame_b_all season_counts_frame_b
  by (simp add: frame_b_def row_b3_def)

section \<open>Facts about the win matrix\<close>

lemma season_winner_Some:
  "season_winner r = Some (s, w) \<longleftrightarrow> season r = Some s \<and> winner r = w"
  by (cases "season r") (auto simp: season_winner_def)

lemma win_matrix_groupby: "win_matrix f = groupby_count season_winner (decided f)"
  by (simp add: win_matrix_def)

lemma win_matrix_seasons:
  "set (map (\<lambda>g. fst (fst g)) (win_matrix f)) = {s. \<exists>r \<in> set (decided f). season r = Some s}"
proof -
  have "map (\<lambda>g. fst (fst g)) (win_matrix f) = map fst (map fst (win_matrix f))"
    by simp
  also have "set \<dots> = fst ` {k. \<exists>r \<in> set (decided f). season_winner r = Some k}"
    by (simp only: win_matrix_groupby groupby_count_keys set_map set_sort set_remdups set_map_filter_key)
  also have "\<dots> = {s. \<exists>r \<in> set (decided f). season r = Some s}"
    by (force simp: season_winner_Some image_iff)
  finally show ?thesis .
qed

lemma win_matrix_winners:
  "set (map (\<lambda>g. snd (fst g)) (win_matrix f))
     = {w. \<exists>r \<in> set (decided f). season r \<noteq> None \<and> winner r = w}"
proof -
  have "map (\<lambda>g. snd (fst g)) (win_matrix f) = map snd (map fst (win_matrix f))"
    by simp
  also have "set \<dots> = snd ` {k. \<exists>r \<in> set (decided f). season_winner r = Some k}"
    by (simp only: win_matrix_groupby groupby_count_keys set_map set_sort set_remdups set_map_filter_key)
  also have "\<dots> = {w. \<exists>r \<in> set (decided f). season r \<noteq> None \<and> winner r = w}"
    by (force simp: season_winner_Some image_iff)
  finally show ?thesis .
qed

lemma win_matrix_fillna:
  "fillna 0 (map_of (win_matrix f) (s, w))
     = length (filter (\<lambda>r. winner r = w \<and> season r = Some s \<and> match_id r \<noteq> None) (decided f))"
proof -
  have "(\<lambda>r. season_winner r = Some (s, w) \<and> match_id r \<noteq> None)
        = (\<lambda>r. winner r = w \<and> season r = Some s \<and> match_id r \<noteq> None)"
    by (auto simp: season_winner_Some)
  then show ?thesis
    by (simp add: win_matrix_groupby groupby_count_fillna)
qed

lemma cell_pivot:
  "cell (pivot wm) w s =
     (if w \<in> set (map (\<lambda>g. snd (fst g)) wm) \<and> s \<in> set (map (\<lambda>g. fst (fst g)) wm)
      then Some (fillna 0 (map_of wm (s, w))) else None)"
  by (simp add: cell_def pivot_def Let_def map_of_map_restrict restrict_map_def map_of_zip_map
      del: set_map)

lemma cell_win_matrix:
  "cell (pivot (win_matrix f)) w s =
     (if (\<exists>r \<in> set (decided f). season r \<noteq> None \<and> winner r = w)
         \<and> (\<exists>r \<in> set (decided f). season r = Some s)
      then Some (length (filter (\<lambda>r. winner r = w \<and> season r = Some s \<and> match_id r \<noteq> None)
                          (decided f)))
      else None)"
  by (simp only: cell_pivot win_matrix_winners win_matrix_seasons win_matrix_fillna mem_Collect_eq)

text \<open>
  C8, as amended. Among the decided rows of the filtered table (winner other than
  "No Result"), for every winner of a row that has a season and every season of a row, the
  win matrix has a cell; its value is the number of decided rows of that winner and
  season whose \<open>match_id\<close> is not missing, and it is 0 when there is no such row.
\<close>

theorem win_matrix_dense:
  assumes "r1 \<in> set (decided f)" and "winner r1 = w" and "season r1 \<noteq> None"
    and "r2 \<in> set (decided f)" and "season r2 = Some s"
  shows "cell (pivot (win_matrix f)) w s
           = Some (length (filter (\<lambda>r. winner r = w \<and> season r = Some s \<and> match_id r \<noteq> None)
                            (decided f)))
         \<and> ((\<forall>r \<in> set (decided f). \<not> (winner r = w \<and> season r = Some s))
              \<longrightarrow> cell (pivot (win_matrix f)) w s = Some 0)"
proof -
  have c: "cell (pivot (win_matrix f)) w s
           = Some (length (filter (\<lambda>r. winner r = w \<and> season r = Some s \<and> match_id r \<noteq> None)
                            (decided f)))"
    using assms by (auto simp: cell_win_matrix)
  have "(\<forall>r \<in> set (decided f). \<not> (winner r = w \<and> season r = Some s))
         \<longrightarrow> filter (\<lambda>r. winner r = w \<and> season r = Some s \<and> match_id r \<noteq> None) (decided f) = []"
    by (auto simp: filter_empty_conv)
  with c show ?thesis by auto
qed

lemma decided_frame_b: "decided (rws frame_b) = [row_b1, row_b3]"
  by (simp add: decided_def frame_b_def row_b1_def row_b2_def row_b3_def)

theorem win_matrix_dense_witness:
  "decided [row_b1, row_c1] = [row_b1, row_c1]
   \<and> winner row_b1 = ''Mumbai'' \<and> season row_b1 = Some 2020
   \<and> winner row_c1 = ''Chennai'' \<and> season row_c1 = Some 2021
   \<and> cell (pivot (win_matrix [row_b1, row_c1])) ''Mumbai'' 2020 = Some 1
   \<and> cell (pivot (win_matrix [row_b1, row_c1])) ''Mumbai'' 2021 = Some 0"
proof -
  have d: "decided [row_b1, row_c1] = [row_b1, row_c1]"
    by (simp add: decided_def row_b1_def row_c1_def row_b3_def)
  have m1: "row_b1 \<in> set (decided [row_b1, row_c1])" and m2: "row_c1 \<in> set (decided [row_b1, row_c1])"
    by (simp_all add: d)
  have w1: "winner row_b1 = ''Mumbai''" and s1: "season row_b1 = Some 2020" "season row_b1 \<noteq> None"
    by (simp_all add: row_b1_def)
  have w2: "winner row_c1 = ''Chennai''" and s2: "season row_c1 = Some 2021"
    by (simp_all add: row_c1_def row_b3_def)
  have "cell (pivot (win_matrix [row_b1, row_c1])) ''Mumbai'' 2020 = Some 1"
    using win_matrix_dense [OF m1 w1 s1(2) m1 s1(1)]
    by (simp add: d) (simp add: row_b1_def row_c1_def row_b3_def)
  moreover have "cell (pivot (win_matrix [row_b1, row_c1])) ''Mumbai'' 2021 = Some 0"
    using win_matrix_dense [OF m1 w1 s1(2) m2 s2]
    by (simp add: d) (simp add: row_b1_def row_c1_def row_b3_def)
  ultimately show ?thesis using d w1 s1 w2 s2 by simp
qed

text \<open>
  C8 as stated fails: in the filtered view of the second example file Mumbai is a winner
  and 2021 is a season, but the only match of 2021 has no winner, so the grid has no
  column 2021 and no cell for Mumbai in 2021.
\<close>

theorem win_matrix_dense_counterexample:
  "load_matches (Some file_b) = Inr frame_b
   \<and> apply_filters [] [] (2020, 1, 1) (2021, 12, 31) (rws frame_b) = [row_b1, row_b2, row_b3]
   \<and> winner row_b1 = ''Mumbai'' \<and> season row_b2 = Some 2021
   \<and> cell (pivot (win_matrix [row_b1, row_b2, row_b3])) ''Mumbai'' 2021 = None"
proof -
  have "cell (pivot (win_matrix (rws frame_b))) ''Mumbai'' 2021 = None"
    by (simp add: cell_win_matrix decided_frame_b) (simp add: row_b1_def row_b3_def)
  with load_file_b filters_frame_b_all show ?thesis
    by (simp add: frame_b_def row_b1_def row_b2_def)
qed

section \<open>Facts about counting values\<close>

lemma first_seen_set: "set (first_seen xs) = set xs"
  by (simp add: first_seen_def)

lemma first_seen_distinct: "distinct (first_seen xs)"
  by (simp add: first_seen_def)

text \<open>The stable sort is a sort of the kind that the facts below ask for.\<close>

lemma insertion_sort_desc_perm: "mset (insertion_sort_desc ps) = mset ps"
  by (simp add: insertion_sort_desc_def)

lemma insertion_sort_desc_sorted:
  "sorted_wrt (\<lambda>p q. snd q \<le> snd p) (insertion_sort_desc ps)"
proof -
  have "sorted (map (\<lambda>p. - int (snd p)) (insertion_sort_desc ps))"
    by (simp add: insertion_sort_desc_def)
  then show ?thesis
    by (simp add: sorted_wrt_map)
qed

lemma value_counts_set:
  assumes "\<And>ps. mset (srt ps) = mset ps"
  shows "set (value_counts srt xs) = (\<lambda>x. (x, count_list xs x)) ` set xs"
proof -
  have "set (value_counts srt xs) = set (map (\<lambda>x. (x, count_list xs x)) (first_seen xs))"
    unfolding value_counts_def by (rule mset_eq_setD) (rule assms)
  then show ?thesis
    by (simp add: first_seen_set)
qed

lemma value_counts_names:
  assumes "\<And>ps. mset (srt ps) = mset ps"
  shows "fst ` set (value_counts srt xs) = set xs"
  by (force simp: value_counts_set [OF assms] image_iff)

lemma value_counts_distinct:
  assumes "\<And>ps. mset (srt ps) = mset ps"
  shows "distinct (map fst (value_counts srt xs))"
proof -
  let ?ps = "map (\<lambda>x. (x, count_list xs x)) (first_seen xs)"
  have eq: "mset (map fst (srt ?ps)) = mset (map fst ?ps)"
    by (simp only: mset_map assms)
  have "distinct (map fst ?ps)"
    by (simp add: comp_def first_seen_distinct)
  with mset_eq_imp_distinct_iff [OF eq] show ?thesis
    unfolding value_counts_def by blast
qed

lemma count_list_winner:
  "count_list (map winner g) w = length (filter (\<lambda>r. winner r = w) g)"
  by (induction g) auto

lemma decided_count:
  "w \<noteq> ''No Result'' \<Longrightarrow>
     length (filter (\<lambda>r. winner r = w) (decided f)) = length (filter (\<lambda>r. winner r = w) f)"
  unfolding decided_def filter_filter
  by (rule arg_cong [where f = length], rule filter_cong) auto

lemma decided_winner: "r \<in> set (decided f) \<Longrightarrow> winner r \<noteq> ''No Result''"
  by (simp add: decided_def)

lemma wins_count:
  assumes perm: "\<And>ps. mset (srt ps) = mset ps" and "p \<in> set (wins srt f)"
  shows "fst p \<noteq> ''No Result'' \<and> snd p = length (filter (\<lambda>r. winner r = fst p) f)"
proof -
  from assms(2) obtain r where r: "r \<in> set (decided f)"
    and p: "p = (winner r, count_list (map winner (decided f)) (winner r))"
    by (auto simp: wins_def value_counts_set [OF perm])
  from r have w: "winner r \<noteq> ''No Result''" by (rule decided_winner)
  with p show ?thesis
    by (simp add: count_list_winner decided_count)
qed

lemma wins_names:
  assumes "\<And>ps. mset (srt ps) = mset ps"
  shows "fst ` set (wins srt f) = {w. w \<noteq> ''No Result'' \<and> w \<in> winner ` set f}"
  by (auto simp: wins_def value_counts_names [OF assms] decided_def)

lemma wins_sorted:
  assumes "\<And>ps. sorted_wrt (\<lambda>p q. snd q \<le> snd p) (srt ps)"
  shows "sorted_wrt (\<lambda>p q. snd q \<le> snd p) (wins srt f)"
  by (simp add: wins_def value_counts_def assms)

text \<open>The winners left out of the first 10 have at most the count of every winner kept.\<close>

lemma sorted_take_drop:
  assumes "sorted_wrt (\<lambda>p q. snd q \<le> snd p) ps"
  shows "\<forall>p \<in> set (take n ps). \<forall>q \<in> set (drop n ps). snd q \<le> snd p"
proof -
  from assms have "sorted_wrt (\<lambda>p q. snd q \<le> snd p) (take n ps @ drop n ps)"
    by simp
  then show ?thesis
    unfolding sorted_wrt_append by blast
qed

text \<open>Two winners with different counts can stand in one order only.\<close>

lemma wins_two:
  assumes perm: "\<And>ps. mset (srt ps) = mset ps"
    and desc: "\<And>ps. sorted_wrt (\<lambda>p q. snd q \<le> snd p) (srt ps)"
    and names: "\<forall>r \<in> set f. winner r = a \<or> winner r = b \<or> winner r = ''No Result''"
    and na: "length (filter (\<lambda>r. winner r = a) f) = ca"
    and nb: "length (filter (\<lambda>r. winner r = b) f) = cb"
    and lt: "cb < ca" "0 < cb" and ab: "a \<noteq> ''No Result''" "b \<noteq> ''No Result''"
  shows "wins srt f = [(a, ca), (b, cb)]"
proof -
  let ?W = "wins srt f"
  have neq: "a \<noteq> b" using na nb lt by auto
  have "filter (\<lambda>r. winner r = a) f \<noteq> []" using na lt by auto
  then have ina: "a \<in> winner ` set f"
    by (auto simp: filter_empty_conv)
  have "filter (\<lambda>r. winner r = b) f \<noteq> []" using nb lt by auto
  then have inb: "b \<in> winner ` set f"
    by (auto simp: filter_empty_conv)
  have fst_set: "fst ` set ?W = {a, b}"
    using names ina inb ab unfolding wins_names [OF perm] by auto
  have cnt: "\<And>p. p \<in> set ?W \<Longrightarrow> snd p = length (filter (\<lambda>r. winner r = fst p) f)"
    using wins_count [OF perm] by blast
  have set_W: "set ?W = {(a, ca), (b, cb)}"
  proof (rule set_eqI)
    fix p :: "string \<times> nat"
    show "p \<in> set ?W \<longleftrightarrow> p \<in> {(a, ca), (b, cb)}"
    proof
      assume p: "p \<in> set ?W"
      then have "fst p \<in> {a, b}" using fst_set by blast
      with cnt [OF p] na nb show "p \<in> {(a, ca), (b, cb)}"
        by (cases p) auto
    next
      assume "p \<in> {(a, ca), (b, cb)}"
      then have "fst p \<in> fst ` set ?W" and c: "snd p = length (filter (\<lambda>r. winner r = fst p) f)"
        using fst_set na nb by auto
      then obtain q where q: "q \<in> set ?W" and "fst q = fst p" by auto
      with cnt [OF q] c have "q = p" by (simp add: prod_eq_iff)
      with q show "p \<in> set ?W" by simp
    qed
  qed
  have "distinct (map fst ?W)"
    unfolding wins_def by (rule value_counts_distinct [OF perm])
  then have dist: "distinct ?W"
    by (simp add: distinct_map)
  then have "length ?W = card (set ?W)"
    by (simp add: distinct_card)
  also have "\<dots> = 2"
    using neq by (simp add: set_W)
  finally obtain y1 y2 where W: "?W = [y1, y2]"
    by (auto simp: length_Suc_conv numeral_2_eq_2)
  with set_W dist have "(y1 = (a, ca) \<and> y2 = (b, cb)) \<or> (y1 = (b, cb) \<and> y2 = (a, ca))"
    by (auto simp: doubleton_eq_iff)
  moreover have "sorted_wrt (\<lambda>p q. snd q \<le> snd p) ?W"
    by (rule wins_sorted) (rule desc)
  with W have "snd y2 \<le> snd y1"
    by simp
  ultimately show ?thesis
    using W lt by auto
qed

text \<open>
  C6, as amended. The leaderboard is the first 10 entries of the win counts. The win
  counts have one entry for each winner other than "No Result" of the filtered table,
  with the number of that winner's rows, in descending order of the count; every winner
  that the cut to 10 leaves out has at most the count of every winner that it keeps.
  Where counts are equal the order is the one that the sort of pandas leaves, whatever it
  is: no name is compared. In particular, 2 wins of Mumbai and 1 win of Chennai give
  Mumbai with 2 before Chennai with 1. All this holds for every sort that returns a
  permutation of its argument in descending order of the count.
\<close>

theorem win_leaderboard:
  assumes perm: "\<And>ps. mset (sort_values ps) = mset ps"
    and desc: "\<And>ps. sorted_wrt (\<lambda>p q. snd q \<le> snd p) (sort_values ps)"
  shows "win_counts sort_values f = take 10 (wins sort_values f)
   \<and> sorted_wrt (\<lambda>p q. snd q \<le> snd p) (wins sort_values f)
   \<and> distinct (map fst (wins sort_values f))
   \<and> fst ` set (wins sort_values f) = {w. w \<noteq> ''No Result'' \<and> w \<in> winner ` set f}
   \<and> (\<forall>p \<in> set (wins sort_values f). snd p = length (filter (\<lambda>r. winner r = fst p) f))
   \<and> sorted_wrt (\<lambda>p q. snd q \<le> snd p) (win_counts sort_values f)
   \<and> length (win_counts sort_values f) \<le> 10
   \<and> (\<forall>p \<in> set (win_counts sort_values f). \<forall>q \<in> set (drop 10 (wins sort_values f)).
         snd q \<le> snd p)
   \<and> ((\<forall>r \<in> set f. winner r = ''Mumbai'' \<or> winner r = ''Chennai'' \<or> winner r = ''No Result'')
        \<and> length (filter (\<lambda>r. winner r = ''Mumbai'') f) = 2
        \<and> length (filter (\<lambda>r. winner r = ''Chennai'') f) = 1
      \<longrightarrow> win_counts sort_values f = [(''Mumbai'', 2), (''Chennai'', 1)])"
proof -
  have s: "sorted_wrt (\<lambda>p q. snd q \<le> snd p) (wins sort_values f)"
    by (rule wins_sorted) (rule desc)
  then have st: "sorted_wrt (\<lambda>p q. snd q \<le> snd p) (win_counts sort_values f)"
    unfolding win_counts_def by (rule sorted_wrt_take)
  have d: "distinct (map fst (wins sort_values f))"
    unfolding wins_def by (rule value_counts_distinct [OF perm])
  have c: "\<forall>p \<in> set (wins sort_values f). snd p = length (filter (\<lambda>r. winner r = fst p) f)"
    using wins_count [OF perm] by blast
  have l: "length (win_counts sort_values f) \<le> 10"
    by (simp add: win_counts_def)
  have t: "\<forall>p \<in> set (win_counts sort_values f). \<forall>q \<in> set (drop 10 (wins sort_values f)).
         snd q \<le> snd p"
    unfolding win_counts_def by (rule sorted_take_drop [OF s])
  have two: "win_counts sort_values f = [(''Mumbai'', 2), (''Chennai'', 1)]"
    if "\<forall>r \<in> set f. winner r = ''Mumbai'' \<or> winner r = ''Chennai'' \<or> winner r = ''No Result''"
      and "length (filter (\<lambda>r. winner r = ''Mumbai'') f) = 2"
      and "length (filter (\<lambda>r. winner r = ''Chennai'') f) = 1"
  proof -
    have "wins sort_values f = [(''Mumbai'', 2), (''Chennai'', 1)]"
      by (rule wins_two [OF perm desc that]) simp_all
    then show ?thesis
      by (simp add: win_counts_def)
  qed
  have e: "win_counts sort_values f = take 10 (wins sort_values f)"
    by (simp add: win_counts_def)
  have n: "fst ` set (wins sort_values f) = {w. w \<noteq> ''No Result'' \<and> w \<in> winner ` set f}"
    by (rule wins_names [OF perm])
  from e s d n c st l t two show ?thesis
    by blast
qed

theorem win_leaderboard_witness:
  "mset (insertion_sort_desc [(''Chennai'', 1), (''Mumbai'', 2 :: nat)]) = mset [(''Chennai'', 1), (''Mumbai'', 2)]
   \<and> sorted_wrt (\<lambda>p q. snd q \<le> snd p) (insertion_sort_desc [(''Chennai'', 1), (''Mumbai'', 2 :: nat)])
   \<and> length (filter (\<lambda>r. winner r = ''Mumbai'') (rws frame_a)) = 2
   \<and> length (filter (\<lambda>r. winner r = ''Chennai'') (rws frame_a)) = 1
   \<and> win_counts insertion_sort_desc (rws frame_a) = [(''Mumbai'', 2), (''Chennai'', 1)]
   \<and> sorted_wrt (\<lambda>p q. snd q \<le> snd p) (win_counts insertion_sort_desc (rws frame_a))"
proof -
  note th = win_leaderboard [of insertion_sort_desc "rws frame_a",
      OF insertion_sort_desc_perm insertion_sort_desc_sorted]
  have names: "\<forall>r \<in> set (rws frame_a).
      winner r = ''Mumbai'' \<or> winner r = ''Chennai'' \<or> winner r = ''No Result''"
    by (simp add: frame_a_def row_a1_def row_a2_def row_a3_def row_a4_def)
  have m: "length (filter (\<lambda>r. winner r = ''Mumbai'') (rws frame_a)) = 2"
    by (simp add: frame_a_def row_a1_def row_a2_def row_a3_def row_a4_def)
  have c: "length (filter (\<lambda>r. winner r = ''Chennai'') (rws frame_a)) = 1"
    by (simp add: frame_a_def row_a1_def row_a2_def row_a3_def row_a4_def)
  from th names m c
  have "win_counts insertion_sort_desc (rws frame_a) = [(''Mumbai'', 2), (''Chennai'', 1)]"
    by blast
  moreover from th
  have "sorted_wrt (\<lambda>p q. snd q \<le> snd p) (win_counts insertion_sort_desc (rws frame_a))"
    by blast
  ultimately show ?thesis
    using m c insertion_sort_desc_perm [of "[(''Chennai'', 1), (''Mumbai'', 2 :: nat)]"]
      insertion_sort_desc_sorted [of "[(''Chennai'', 1), (''Mumbai'', 2 :: nat)]"]
    by blast
qed

lemma wins_frame_b:
  "wins insertion_sort_desc (rws frame_b) = [(''Mumbai'', 1), (''Chennai'', 1)]"
  by (simp add: wins_def decided_def value_counts_def insertion_sort_desc_def first_seen_def
      frame_b_def row_b1_def row_b2_def row_b3_def)

text \<open>
  C6 as stated fails on a tie: in the filtered view of the second example file Mumbai and
  Chennai have one win each and Mumbai wins first. The two entries are sorted by
  insertion, which leaves them as they are: Mumbai stands before Chennai, although
  Chennai is the smaller name.
\<close>

theorem win_tie_order_counterexample:
  "load_matches (Some file_b) = Inr frame_b
   \<and> apply_filters [] [] (2020, 1, 1) (2021, 12, 31) (rws frame_b) = [row_b1, row_b2, row_b3]
   \<and> win_counts insertion_sort_desc [row_b1, row_b2, row_b3] = [(''Mumbai'', 1), (''Chennai'', 1)]
   \<and> ''Chennai'' < ''Mumbai''"
proof -
  have "win_counts insertion_sort_desc (rws frame_b) = [(''Mumbai'', 1), (''Chennai'', 1)]"
    by (simp add: win_counts_def wins_frame_b)
  with load_file_b filters_frame_b_all show ?thesis
    by (simp add: frame_b_def)
qed

end
